theory Spec2Isabelle
  imports Main
begin

section \<open>Data model\<close>

text \<open>
  The epoch loop of \<^verbatim>\<open>pytorch_lightning/loops/epoch_loop.py\<close>. Python integers are
  unbounded and become \<open>int\<close>; an attribute that may be \<open>None\<close> becomes an \<open>option\<close>.
  The collaborators of the loop (trainer, callbacks, logger, profiler, accelerator) are
  outside the file: a call to one of them is recorded as an \<open>event\<close> in the order the
  source makes it, and is assumed to return normally.
\<close>

record checkpoint_callback =
  save_last :: bool
  verbose :: bool

datatype event =
    CallHook string
  | LogInfoMinNotMet "int option" "int option"
  | RankZeroInfo string
  | OnValidationEnd checkpoint_callback string int
  | LoggerFinalize string string
  | ProfilerDescribe
  | AcceleratorOnTrainEnd
  | ResetTrainDataloader string
  | SamplerSetEpoch int
  | SchedulerOnTrainEpochStart string
  | ResetAccumulatedLoss int
  | TrainingLoopRun
  | LogTrainEpochEndMetrics
  | UpdateLearningRates string
  | RunEvaluation

text \<open>
  \<open>OnValidationEnd cb model step\<close> is the call \<^verbatim>\<open>cb.on_validation_end(trainer, model)\<close>;
  \<open>step\<close> is the value of the global step the callback can read while it runs.
  \<open>LoggerFinalize name status\<close> is \<^verbatim>\<open>trainer.logger.finalize(status)\<close>.
\<close>

record TrainingLoop =
  global_step :: int
  min_steps :: "int option"
  max_steps :: "int option"

text \<open>The attributes of the trainer that the epoch loop reads or writes.\<close>

record Trainer =
  should_stop :: bool
  logger :: "string option"
  running_stage :: "string option"
  reload_dataloaders_every_epoch :: bool
  sampler_accepts_set_epoch :: bool
  accumulate_grad_batches :: int
  disable_validation :: bool
  has_trained :: bool
  checkpoint_callbacks :: "checkpoint_callback list"
  lightning_module :: string

text \<open>
  The attributes \<^verbatim>\<open>__init__\<close> sets. \<open>iteration_count\<close> belongs to the base class
  \<^verbatim>\<open>Loop\<close>; \<^verbatim>\<open>running_loss\<close> is a dummy tensor that no method reads and is left out.
\<close>

record EpochLoop =
  teardown_already_run :: bool
  max_epochs :: "int option"
  min_epochs :: "int option"
  current_epoch :: int
  iteration_count :: int
  training_loop :: TrainingLoop

text \<open>
  A loop after \<^verbatim>\<open>connect\<close>: the methods below read \<^verbatim>\<open>self.trainer\<close>, which exists
  only from then on. \<open>effects\<close> is the trace of calls made to the collaborators.
\<close>

record Loop = EpochLoop +
  trainer :: Trainer
  effects :: "event list"

section \<open>Construction\<close>

text \<open>
  Modelled from the spec: the constructor of \<^verbatim>\<open>TrainingLoop\<close> (not in the sources at
  hand) keeps the two step bounds as given and starts its step counter at 0.
\<close>

definition TrainingLoop_init :: "int option \<Rightarrow> int option \<Rightarrow> TrainingLoop" where
  "TrainingLoop_init min_steps' max_steps' =
     \<lparr>global_step = 0, min_steps = min_steps', max_steps = max_steps'\<rparr>"

text \<open>
  Modelled from the spec: the constructor of the base class \<^verbatim>\<open>Loop\<close> (not in the
  sources at hand) starts \<open>iteration_count\<close> at 0, the value of \<open>current_epoch\<close>.
\<close>

definition Loop_init_iteration_count :: int where
  "Loop_init_iteration_count = 0"

definition EpochLoop_init ::
  "int option \<Rightarrow> int option \<Rightarrow> int option \<Rightarrow> int option \<Rightarrow> EpochLoop" where
  "EpochLoop_init min_epochs' max_epochs' min_steps' max_steps' =
     \<lparr>teardown_already_run = False,
      max_epochs = (if max_epochs' = None \<and> max_steps' = None then Some 1000 else max_epochs'),
      min_epochs = (if min_epochs' = None \<and> min_steps' = None then Some 1 else min_epochs'),
      current_epoch = 0,
      iteration_count = Loop_init_iteration_count,
      training_loop = TrainingLoop_init min_steps' max_steps'\<rparr>"

definition connect :: "Trainer \<Rightarrow> EpochLoop \<Rightarrow> Loop" where
  "connect tr l =
     \<lparr>teardown_already_run = teardown_already_run l,
      max_epochs = max_epochs l,
      min_epochs = min_epochs l,
      current_epoch = current_epoch l,
      iteration_count = iteration_count l,
      training_loop = training_loop l,
      trainer = tr,
      effects = []\<rparr>"

section \<open>Properties and small helpers\<close>

definition EpochLoop_global_step :: "Loop \<Rightarrow> int" where
  "EpochLoop_global_step l = global_step (training_loop l)"

definition EpochLoop_min_steps :: "Loop \<Rightarrow> int option" where
  "EpochLoop_min_steps l = min_steps (training_loop l)"

definition EpochLoop_max_steps :: "Loop \<Rightarrow> int option" where
  "EpochLoop_max_steps l = max_steps (training_loop l)"

definition set_global_step :: "int \<Rightarrow> Loop \<Rightarrow> Loop" where
  "set_global_step g l = l\<lparr>training_loop := (training_loop l)\<lparr>global_step := g\<rparr>\<rparr>"

definition set_should_stop :: "bool \<Rightarrow> Loop \<Rightarrow> Loop" where
  "set_should_stop b l = l\<lparr>trainer := (trainer l)\<lparr>should_stop := b\<rparr>\<rparr>"

definition set_running_stage :: "string option \<Rightarrow> Loop \<Rightarrow> Loop" where
  "set_running_stage r l = l\<lparr>trainer := (trainer l)\<lparr>running_stage := r\<rparr>\<rparr>"

definition emit :: "event \<Rightarrow> Loop \<Rightarrow> Loop" where
  "emit e l = l\<lparr>effects := effects l @ [e]\<rparr>"

definition call_hook :: "string \<Rightarrow> Loop \<Rightarrow> Loop" where
  "call_hook name l = emit (CallHook name) l"

section \<open>The stop condition\<close>

text \<open>
  \<^verbatim>\<open>self.max_steps and self.max_steps <= self.global_step\<close>: Python's \<^verbatim>\<open>and\<close> yields its
  left operand when that is falsy, and both \<open>None\<close> and \<open>0\<close> are falsy. The same holds
  for the conditions of \<^verbatim>\<open>... if self.min_epochs else True\<close> and
  \<^verbatim>\<open>... if self.min_steps else True\<close>. The maximum of epochs is tested with
  \<^verbatim>\<open>is not None\<close>. The result of the property is always a Python \<open>bool\<close>.
\<close>

definition stop_steps :: "Loop \<Rightarrow> bool" where
  "stop_steps l =
     (case EpochLoop_max_steps l of
        None \<Rightarrow> False
      | Some m \<Rightarrow> m \<noteq> 0 \<and> m \<le> EpochLoop_global_step l)"

definition met_min_epochs :: "Loop \<Rightarrow> bool" where
  "met_min_epochs l =
     (case min_epochs l of
        None \<Rightarrow> True
      | Some m \<Rightarrow> if m \<noteq> 0 then current_epoch l \<ge> m - 1 else True)"

definition met_min_steps :: "Loop \<Rightarrow> bool" where
  "met_min_steps l =
     (case EpochLoop_min_steps l of
        None \<Rightarrow> True
      | Some m \<Rightarrow> if m \<noteq> 0 then EpochLoop_global_step l \<ge> m else True)"

definition stop_epochs :: "Loop \<Rightarrow> bool" where
  "stop_epochs l =
     (case max_epochs l of
        None \<Rightarrow> False
      | Some m \<Rightarrow> current_epoch l \<ge> m)"

definition EpochLoop_done :: "Loop \<Rightarrow> bool \<times> Loop" where
  "EpochLoop_done l =
     (let stop_steps' = stop_steps l;
          (should_stop', l') =
            (if should_stop (trainer l) then
               (if met_min_epochs l \<and> met_min_steps l then (True, l)
                else (False,
                      set_should_stop False
                        (emit (LogInfoMinNotMet (min_epochs l) (EpochLoop_min_steps l)) l)))
             else (False, l));
          stop_epochs' = stop_epochs l'
      in (stop_steps' \<or> should_stop' \<or> stop_epochs', l'))"

section \<open>Checkpoint check and end of the run\<close>

fun on_validation_end_each :: "checkpoint_callback list \<Rightarrow> string \<Rightarrow> Loop \<Rightarrow> Loop" where
  "on_validation_end_each [] model l = l"
| "on_validation_end_each (cb # cbs) model l =
     on_validation_end_each cbs model
       (emit (OnValidationEnd cb model (EpochLoop_global_step l)) l)"

definition check_checkpoint_callback :: "bool \<Rightarrow> bool \<Rightarrow> Loop \<Rightarrow> Loop" where
  "check_checkpoint_callback should_update is_last l =
     (if should_update \<and> has_trained (trainer l) then
        (let callbacks = checkpoint_callbacks (trainer l);
             l1 = (if is_last \<and> list_ex (\<lambda>cb. save_last cb \<and> verbose cb) callbacks
                   then emit (RankZeroInfo ''Saving latest checkpoint...'') l
                   else l);
             model = lightning_module (trainer l1)
         in on_validation_end_each callbacks model l1)
      else l)"

definition on_run_start :: "Loop \<Rightarrow> Loop" where
  "on_run_start l = call_hook ''on_train_start'' l"

definition on_run_end :: "Loop \<Rightarrow> Loop" where
  "on_run_end l =
     (if teardown_already_run l then l
      else
        (let l1 = l\<lparr>teardown_already_run := True\<rparr>;
             l2 = set_global_step (EpochLoop_global_step l1 - 1) l1;
             l3 = check_checkpoint_callback True True l2;
             l4 = set_global_step (EpochLoop_global_step l3 + 1) l3;
             l5 = call_hook ''on_train_end'' l4;
             l6 = (case logger (trainer l5) of
                     None \<Rightarrow> l5
                   | Some name \<Rightarrow> emit (LoggerFinalize name ''success'') l5);
             l7 = emit ProfilerDescribe l6;
             l8 = emit AcceleratorOnTrainEnd l7
         in set_running_stage None l8))"

section \<open>One epoch\<close>

text \<open>
  \<^verbatim>\<open>with suppress(Exception): ...sampler.set_epoch(epoch)\<close>: the call either goes
  through or fails and is swallowed; \<open>sampler_accepts_set_epoch\<close> says which.
\<close>

definition on_advance_start :: "Loop \<Rightarrow> Loop" where
  "on_advance_start l =
     (let epoch = iteration_count l + 1;
          l1 = l\<lparr>current_epoch := epoch\<rparr>;
          model = lightning_module (trainer l1);
          l2 = (if epoch \<noteq> 0 \<and> reload_dataloaders_every_epoch (trainer l1)
                then emit (ResetTrainDataloader model) l1 else l1);
          l3 = (if sampler_accepts_set_epoch (trainer l2)
                then emit (SamplerSetEpoch epoch) l2 else l2);
          l4 = emit (SchedulerOnTrainEpochStart (lightning_module (trainer l3))) l3;
          l5 = emit (ResetAccumulatedLoss (accumulate_grad_batches (trainer l4))) l4;
          l6 = call_hook ''on_epoch_start'' l5
      in call_hook ''on_train_epoch_start'' l6)"

text \<open>
  Modelled from the spec: the inner step loop, the evaluation pass and the callbacks that
  run inside them are not in the sources at hand. What one epoch of them does to the
  state they share with the epoch loop is given from outside, one record per epoch:
  the global step and the stop signal as \<^verbatim>\<open>training_loop.run()\<close> leaves them, the
  answers of \<^verbatim>\<open>should_check_val_fx\<close> and \<^verbatim>\<open>should_skip_evaluation\<close>, the stop signal
  as the evaluation pass leaves it, and the global step as
  \<^verbatim>\<open>increment_accumulated_grad_global_step\<close> leaves it.
\<close>

record epoch_env =
  run_global_step :: int
  run_should_stop :: bool
  check_val :: bool
  skip_eval :: bool
  eval_should_stop :: bool
  accumulated_global_step :: int

definition advance :: "epoch_env \<Rightarrow> Loop \<Rightarrow> Loop" where
  "advance e l =
     (let l1 = emit TrainingLoopRun l;
          l2 = set_global_step (run_global_step e) l1;
          l3 = set_should_stop (run_should_stop e) l2
      in emit LogTrainEpochEndMetrics l3)"

definition on_advance_end :: "epoch_env \<Rightarrow> Loop \<Rightarrow> Loop" where
  "on_advance_end e l =
     (let should_check_val = check_val e;
          should_skip_eval = skip_eval e;
          should_train_only = (disable_validation (trainer l) \<or> should_skip_eval);
          l1 = (if \<not> should_check_val \<or> should_train_only
                then emit (UpdateLearningRates ''epoch'') l else l);
          l2 = (if should_train_only then check_checkpoint_callback True False l1 else l1);
          l3 = (if should_check_val
                then set_running_stage (Some ''training'')
                       (set_should_stop (eval_should_stop e)
                          (emit RunEvaluation
                             (set_running_stage (Some ''validating'') l2)))
                else l2)
      in set_global_step (accumulated_global_step e) l3)"

section \<open>The run\<close>

text \<open>
  Modelled from the spec: the driver \<^verbatim>\<open>Loop.run\<close> of the base class is not in the
  sources at hand. The spec gives its control flow: the run-start hook, then, while
  \<open>done\<close> is false, \<open>on_advance_start\<close>, \<open>advance\<close>, \<open>on_advance_end\<close> and one more on the
  iteration counter, then \<open>on_run_end\<close>. The functions return the trace of the states
  the loop goes through, one after each call and each with the point of the run it
  stands at, so that a property of every point of a run is a property of every element
  of the trace, and the epochs a run has started are the \<open>AdvanceStarted\<close> points of
  its trace. The list of environments is the
  fuel: when it is used up before \<open>done\<close> is true the trace ends there, a prefix of
  the trace of a longer run.
\<close>

datatype point =
    Constructed
  | RunStarted
  | DoneChecked
  | AdvanceStarted
  | Advanced
  | AdvanceEnded
  | IterationCounted
  | RunEnded

fun Loop_iterate :: "epoch_env list \<Rightarrow> Loop \<Rightarrow> (point \<times> Loop) list" where
  "Loop_iterate [] l =
     (let (d, l1) = EpochLoop_done l
      in if d then [(DoneChecked, l1), (RunEnded, on_run_end l1)] else [(DoneChecked, l1)])"
| "Loop_iterate (e # es) l =
     (let (d, l1) = EpochLoop_done l
      in if d then [(DoneChecked, l1), (RunEnded, on_run_end l1)]
         else
           (let l2 = on_advance_start l1;
                l3 = advance e l2;
                l4 = on_advance_end e l3;
                l5 = l4\<lparr>iteration_count := iteration_count l4 + 1\<rparr>
            in [(DoneChecked, l1), (AdvanceStarted, l2), (Advanced, l3), (AdvanceEnded, l4),
                (IterationCounted, l5)]
               @ Loop_iterate es l5))"

definition Loop_run :: "epoch_env list \<Rightarrow> Loop \<Rightarrow> (point \<times> Loop) list" where
  "Loop_run envs l =
     (let l0 = on_run_start l in [(Constructed, l), (RunStarted, l0)] @ Loop_iterate envs l0)"

text \<open>
  One step of a trace, as far as the current epoch goes: it grows by one on arriving
  at a point after \<open>on_advance_start\<close> and stays as it is on arriving anywhere else.
\<close>

definition epoch_step :: "point \<times> Loop \<Rightarrow> point \<times> Loop \<Rightarrow> bool" where
  "epoch_step a b =
     (current_epoch (snd b) = current_epoch (snd a) + (if fst b = AdvanceStarted then 1 else 0))"

section \<open>Concrete states used to exercise the definitions\<close>

definition plain_trainer :: Trainer where
  "plain_trainer =
     \<lparr>should_stop = False, logger = Some ''tensorboard'', running_stage = Some ''training'',
      reload_dataloaders_every_epoch = False, sampler_accepts_set_epoch = True,
      accumulate_grad_batches = 1, disable_validation = False, has_trained = True,
      checkpoint_callbacks =
        [\<lparr>save_last = True, verbose = True\<rparr>, \<lparr>save_last = True, verbose = True\<rparr>],
      lightning_module = ''model''\<rparr>"

definition quiet_epoch :: epoch_env where
  "quiet_epoch =
     \<lparr>run_global_step = 10, run_should_stop = False, check_val = True, skip_eval = False,
      eval_should_stop = False, accumulated_global_step = 11\<rparr>"

text \<open>A loop built with no bound given, connected and not yet run.\<close>

definition fresh_loop :: Loop where
  "fresh_loop = connect plain_trainer (EpochLoop_init None None None None)"

text \<open>\<^verbatim>\<open>EpochLoop(None, None, None, max_steps=0)\<close>, connected, before the first epoch.\<close>

definition max_steps_zero_loop :: Loop where
  "max_steps_zero_loop = connect plain_trainer (EpochLoop_init None None None (Some 0))"

text \<open>
  \<^verbatim>\<open>EpochLoop(min_epochs=5, None, None, max_steps=10)\<close> after its first epoch, which took
  ten steps and during which a callback has set the stop signal.
\<close>

definition deferred_stop_loop :: Loop where
  "deferred_stop_loop =
     set_should_stop True
       (set_global_step 10
          ((connect plain_trainer (EpochLoop_init (Some 5) None None (Some 10)))
             \<lparr>current_epoch := 1, iteration_count := 1\<rparr>))"

text \<open>
  \<^verbatim>\<open>EpochLoop(min_epochs=2, max_epochs=10, None, None)\<close> with the stop signal set: before
  the first epoch, and after it.
\<close>

definition early_stop_loop :: Loop where
  "early_stop_loop =
     set_should_stop True (connect plain_trainer (EpochLoop_init (Some 2) (Some 10) None None))"

definition early_stop_loop_epoch1 :: Loop where
  "early_stop_loop_epoch1 = early_stop_loop\<lparr>current_epoch := 1, iteration_count := 1\<rparr>"

text \<open>\<^verbatim>\<open>EpochLoop(None, max_epochs=-1, None, None)\<close>, connected.\<close>

definition negative_max_epochs_loop :: Loop where
  "negative_max_epochs_loop = connect plain_trainer (EpochLoop_init None (Some (- 1)) None None)"

text \<open>A fresh loop whose trainer has \<^verbatim>\<open>reload_dataloaders_every_epoch=True\<close>.\<close>

definition reload_loop :: Loop where
  "reload_loop =
     connect (plain_trainer\<lparr>reload_dataloaders_every_epoch := True\<rparr>)
       (EpochLoop_init None None None None)"

text \<open>
  \<^verbatim>\<open>EpochLoop(min_epochs=0, None, min_steps=0, None)\<close> with the stop signal set before
  any epoch or step.
\<close>

definition zero_floor_loop :: Loop where
  "zero_floor_loop =
     set_should_stop True (connect plain_trainer (EpochLoop_init (Some 0) None (Some 0) None))"

section \<open>What each operation does to the state\<close>

text \<open>
  The helpers only rewrite one field; the lemmas below give each method of the loop as
  one update of the state it starts from, and say which fields it leaves alone.
\<close>

lemmas helper_defs = emit_def call_hook_def set_global_step_def set_should_stop_def
  set_running_stage_def EpochLoop_global_step_def EpochLoop_min_steps_def EpochLoop_max_steps_def

lemma done_result:
  "fst (EpochLoop_done l) =
     (stop_steps l \<or> (should_stop (trainer l) \<and> met_min_epochs l \<and> met_min_steps l) \<or> stop_epochs l)"
  by (auto simp add: EpochLoop_done_def Let_def stop_epochs_def set_should_stop_def emit_def split: option.splits)

lemma done_state:
  "snd (EpochLoop_done l) =
     (if should_stop (trainer l) \<and> \<not> (met_min_epochs l \<and> met_min_steps l)
      then set_should_stop False (emit (LogInfoMinNotMet (min_epochs l) (EpochLoop_min_steps l)) l)
      else l)"
  by (simp add: EpochLoop_done_def Let_def)

lemma on_validation_end_each_eq:
  "on_validation_end_each cbs model l =
     l\<lparr>effects := effects l @ map (\<lambda>cb. OnValidationEnd cb model (EpochLoop_global_step l)) cbs\<rparr>"
  by (induction cbs arbitrary: l) (simp_all add: helper_defs)

lemma check_checkpoint_callback_eq:
  "check_checkpoint_callback should_update is_last l =
     (if should_update \<and> has_trained (trainer l) then
        l\<lparr>effects := effects l
            @ (if is_last \<and> list_ex (\<lambda>cb. save_last cb \<and> verbose cb) (checkpoint_callbacks (trainer l))
               then [RankZeroInfo ''Saving latest checkpoint...''] else [])
            @ map (\<lambda>cb. OnValidationEnd cb (lightning_module (trainer l)) (EpochLoop_global_step l))
                (checkpoint_callbacks (trainer l))\<rparr>
      else l)"
  by (simp add: check_checkpoint_callback_def Let_def on_validation_end_each_eq helper_defs)

lemma on_run_end_eq:
  "on_run_end l =
     (if teardown_already_run l then l
      else l\<lparr>teardown_already_run := True,
             trainer := (trainer l)\<lparr>running_stage := None\<rparr>,
             effects :=
               effects (check_checkpoint_callback True True
                          (set_global_step (EpochLoop_global_step l - 1) l))
               @ [CallHook ''on_train_end'']
               @ (case logger (trainer l) of None \<Rightarrow> [] | Some name \<Rightarrow> [LoggerFinalize name ''success''])
               @ [ProfilerDescribe, AcceleratorOnTrainEnd]\<rparr>)"
  by (cases "logger (trainer l)")
     (simp_all add: on_run_end_def Let_def check_checkpoint_callback_eq helper_defs)


lemma done_frame:
  "current_epoch (snd (EpochLoop_done l)) = current_epoch l"
  "iteration_count (snd (EpochLoop_done l)) = iteration_count l"
  "max_epochs (snd (EpochLoop_done l)) = max_epochs l"
  "min_epochs (snd (EpochLoop_done l)) = min_epochs l"
  "training_loop (snd (EpochLoop_done l)) = training_loop l"
  "teardown_already_run (snd (EpochLoop_done l)) = teardown_already_run l"
  by (simp_all add: done_state helper_defs)

lemma on_run_start_frame:
  "current_epoch (on_run_start l) = current_epoch l"
  "iteration_count (on_run_start l) = iteration_count l"
  "max_epochs (on_run_start l) = max_epochs l"
  by (simp_all add: on_run_start_def helper_defs)

lemma on_run_end_frame:
  "current_epoch (on_run_end l) = current_epoch l"
  "iteration_count (on_run_end l) = iteration_count l"
  "max_epochs (on_run_end l) = max_epochs l"
  by (simp_all add: on_run_end_eq)

lemma on_advance_start_frame:
  "current_epoch (on_advance_start l) = iteration_count l + 1"
  "iteration_count (on_advance_start l) = iteration_count l"
  "max_epochs (on_advance_start l) = max_epochs l"
  by (simp_all add: on_advance_start_def Let_def helper_defs)

lemma advance_frame:
  "current_epoch (advance e l) = current_epoch l"
  "iteration_count (advance e l) = iteration_count l"
  "max_epochs (advance e l) = max_epochs l"
  by (simp_all add: advance_def Let_def helper_defs)

lemma on_advance_end_frame:
  "current_epoch (on_advance_end e l) = current_epoch l"
  "iteration_count (on_advance_end e l) = iteration_count l"
  "max_epochs (on_advance_end e l) = max_epochs l"
  by (simp_all add: on_advance_end_def Let_def check_checkpoint_callback_eq helper_defs)

lemmas frame = done_frame on_run_start_frame on_run_end_frame on_advance_start_frame
  advance_frame on_advance_end_frame

lemma not_done_below_max:
  "\<not> fst (EpochLoop_done l) \<Longrightarrow> max_epochs l = Some m \<Longrightarrow> current_epoch l < m"
  by (simp add: done_result stop_epochs_def)


lemma Loop_iterate_hd:
  "Loop_iterate envs l \<noteq> []
   \<and> fst (hd (Loop_iterate envs l)) = DoneChecked
   \<and> current_epoch (snd (hd (Loop_iterate envs l))) = current_epoch l"
  by (cases envs) (simp_all add: Let_def split_beta frame)

lemma Loop_iterate_unfold:
  assumes "\<not> fst (EpochLoop_done l)"
  shows "Loop_iterate (e # es) l =
     [(DoneChecked, snd (EpochLoop_done l)),
      (AdvanceStarted, on_advance_start (snd (EpochLoop_done l))),
      (Advanced, advance e (on_advance_start (snd (EpochLoop_done l)))),
      (AdvanceEnded, on_advance_end e (advance e (on_advance_start (snd (EpochLoop_done l))))),
      (IterationCounted,
       (on_advance_end e (advance e (on_advance_start (snd (EpochLoop_done l)))))
         \<lparr>iteration_count :=
            iteration_count
              (on_advance_end e (advance e (on_advance_start (snd (EpochLoop_done l))))) + 1\<rparr>)]
     @ Loop_iterate es
         ((on_advance_end e (advance e (on_advance_start (snd (EpochLoop_done l)))))
            \<lparr>iteration_count :=
               iteration_count
                 (on_advance_end e (advance e (on_advance_start (snd (EpochLoop_done l))))) + 1\<rparr>)"
  using assms by (simp add: Let_def split_beta)

lemma Loop_iterate_steps:
  "current_epoch l = iteration_count l \<Longrightarrow> successively epoch_step (Loop_iterate envs l)"
proof (induction envs arbitrary: l)
  case Nil
  then show ?case by (simp add: Let_def split_beta frame epoch_step_def)
next
  case (Cons e es)
  show ?case
  proof (cases "fst (EpochLoop_done l)")
    case True
    then show ?thesis by (simp add: Let_def split_beta frame epoch_step_def)
  next
    case False
    define l5 where "l5 = (on_advance_end e (advance e (on_advance_start (snd (EpochLoop_done l)))))
        \<lparr>iteration_count := iteration_count (on_advance_end e (advance e (on_advance_start (snd (EpochLoop_done l))))) + 1\<rparr>"
    have inv: "current_epoch l5 = iteration_count l5"
      by (simp add: l5_def frame)
    have ce5: "current_epoch l5 = current_epoch l + 1"
      using Cons.prems by (simp add: l5_def frame)
    have rest: "successively epoch_step (Loop_iterate es l5)"
      by (rule Cons.IH [OF inv])
    have hd5: "Loop_iterate es l5 \<noteq> []" "fst (hd (Loop_iterate es l5)) = DoneChecked"
      "current_epoch (snd (hd (Loop_iterate es l5))) = current_epoch l5"
      using Loop_iterate_hd [of es l5] by simp_all
    show ?thesis
      unfolding Loop_iterate_unfold [OF False] l5_def [symmetric]
      apply (subst successively_append_iff)
      using rest hd5 ce5 Cons.prems
      by (simp add: frame epoch_step_def l5_def)
  qed
qed

lemma Loop_iterate_bound:
  "current_epoch l = iteration_count l \<Longrightarrow> max_epochs l = Some m \<Longrightarrow> current_epoch l \<le> m \<Longrightarrow>
     list_all (\<lambda>x. current_epoch (snd x) \<le> m) (Loop_iterate envs l)"
proof (induction envs arbitrary: l)
  case Nil
  then show ?case by (simp add: Let_def split_beta frame)
next
  case (Cons e es)
  show ?case
  proof (cases "fst (EpochLoop_done l)")
    case True
    with Cons.prems show ?thesis by (simp add: Let_def split_beta frame)
  next
    case False
    define l5 where "l5 = (on_advance_end e (advance e (on_advance_start (snd (EpochLoop_done l)))))
        \<lparr>iteration_count := iteration_count (on_advance_end e (advance e (on_advance_start (snd (EpochLoop_done l))))) + 1\<rparr>"
    have below: "current_epoch l < m"
      using False Cons.prems(2) by (rule not_done_below_max)
    have inv: "current_epoch l5 = iteration_count l5"
      by (simp add: l5_def frame)
    have mx5: "max_epochs l5 = Some m"
      using Cons.prems(2) by (simp add: l5_def frame)
    have ce5: "current_epoch l5 \<le> m"
      using Cons.prems(1) below by (simp add: l5_def frame)
    have rest: "list_all (\<lambda>x. current_epoch (snd x) \<le> m) (Loop_iterate es l5)"
      by (rule Cons.IH [OF inv mx5 ce5])
    show ?thesis
      unfolding Loop_iterate_unfold [OF False] l5_def [symmetric]
      using rest ce5 below Cons.prems(1) by (simp add: frame l5_def)
  qed
qed

lemma connect_init_fields:
  "current_epoch (connect tr (EpochLoop_init mn mx ms mxs)) = 0"
  "iteration_count (connect tr (EpochLoop_init mn mx ms mxs)) = 0"
  "max_epochs (connect tr (EpochLoop_init mn mx ms mxs)) = max_epochs (EpochLoop_init mn mx ms mxs)"
  by (simp_all add: connect_def EpochLoop_init_def Loop_init_iteration_count_def)

lemma Loop_run_steps:
  assumes inv: "current_epoch l = iteration_count l"
  shows "successively epoch_step (Loop_run envs l)"
proof -
  have inv0: "current_epoch (on_run_start l) = iteration_count (on_run_start l)"
    using inv by (simp add: frame)
  have hd0: "Loop_iterate envs (on_run_start l) \<noteq> []"
    "fst (hd (Loop_iterate envs (on_run_start l))) = DoneChecked"
    "current_epoch (snd (hd (Loop_iterate envs (on_run_start l)))) = current_epoch l"
    using Loop_iterate_hd [of envs "on_run_start l"] by (simp_all add: frame)
  show ?thesis
    unfolding Loop_run_def Let_def
    apply (subst successively_append_iff)
    using Loop_iterate_steps [OF inv0] hd0 by (simp add: frame epoch_step_def)
qed

text \<open>
  Along a trace whose steps are all \<open>epoch_step\<close>s, the current epoch at the end of a
  prefix is the current epoch before the first point plus the number of
  \<open>AdvanceStarted\<close> points in the prefix.
\<close>

lemma steps_count:
  assumes "successively epoch_step tr"
  shows "tr = pre @ suf \<Longrightarrow> pre \<noteq> [] \<Longrightarrow>
     current_epoch (snd (last pre)) =
       current_epoch (snd (hd tr)) - (if fst (hd tr) = AdvanceStarted then 1 else 0)
       + int (length (filter (\<lambda>x. fst x = AdvanceStarted) pre))"
proof (induction pre arbitrary: suf rule: rev_induct)
  case Nil
  then show ?case by simp
next
  case (snoc y ys)
  show ?case
  proof (cases "ys = []")
    case True
    with snoc.prems show ?thesis by simp
  next
    case False
    have tr: "tr = ys @ (y # suf)"
      using snoc.prems(1) by simp
    have before: "current_epoch (snd (last ys)) =
       current_epoch (snd (hd tr)) - (if fst (hd tr) = AdvanceStarted then 1 else 0)
       + int (length (filter (\<lambda>x. fst x = AdvanceStarted) ys))"
      by (rule snoc.IH [OF tr False])
    have "successively epoch_step (ys @ (y # suf))"
      using assms tr by simp
    then have "epoch_step (last ys) y"
      using False by (simp add: successively_append_iff)
    then show ?thesis
      using before by (simp add: epoch_step_def)
  qed
qed

lemma steps_sorted:
  assumes "successively epoch_step tr"
  shows "sorted (map (\<lambda>x. current_epoch (snd x)) tr)"
proof -
  have "successively (\<lambda>a b. current_epoch (snd a) \<le> current_epoch (snd b)) tr"
    using assms by (rule successively_mono) (simp add: epoch_step_def)
  then have "successively (\<le>) (map (\<lambda>x. current_epoch (snd x)) tr)"
    by (simp add: successively_map)
  then show ?thesis
    by (simp add: successively_conv_sorted_wrt)
qed

text \<open>The stop signal and the maximum of steps across the calls of one epoch.\<close>

lemma max_steps_frame:
  "EpochLoop_max_steps (snd (EpochLoop_done l)) = EpochLoop_max_steps l"
  "EpochLoop_max_steps (on_run_start l) = EpochLoop_max_steps l"
  "EpochLoop_max_steps (on_advance_start l) = EpochLoop_max_steps l"
  "EpochLoop_max_steps (advance e l) = EpochLoop_max_steps l"
  "EpochLoop_max_steps (on_advance_end e l) = EpochLoop_max_steps l"
  "EpochLoop_max_steps (l\<lparr>iteration_count := n\<rparr>) = EpochLoop_max_steps l"
  by (simp_all add: done_state on_run_start_def on_advance_start_def advance_def
      on_advance_end_def check_checkpoint_callback_eq Let_def helper_defs)

lemma should_stop_frame:
  "should_stop (trainer (on_run_start l)) = should_stop (trainer l)"
  "should_stop (trainer (on_advance_end e l)) =
     (if check_val e then eval_should_stop e else should_stop (trainer l))"
  "should_stop (trainer (advance e l)) = run_should_stop e"
  "should_stop (trainer (l\<lparr>iteration_count := n\<rparr>)) = should_stop (trainer l)"
  by (simp_all add: on_run_start_def advance_def on_advance_end_def
      check_checkpoint_callback_eq Let_def helper_defs)

lemmas state_defs = plain_trainer_def quiet_epoch_def fresh_loop_def max_steps_zero_loop_def
  deferred_stop_loop_def early_stop_loop_def early_stop_loop_epoch1_def
  negative_max_epochs_loop_def reload_loop_def zero_floor_loop_def
  connect_def EpochLoop_init_def TrainingLoop_init_def Loop_init_iteration_count_def

lemmas done_defs = EpochLoop_done_def stop_steps_def stop_epochs_def met_min_epochs_def
  met_min_steps_def

lemmas step_defs = on_run_start_def on_run_end_def on_advance_start_def advance_def
  on_advance_end_def check_checkpoint_callback_def Loop_run_def

section \<open>The stop condition: claims C1, C2, C9, C10\<close>

text \<open>
  What \<open>done\<close> returns when the maximum of steps is not the number 0: the three
  disjuncts of the source, with the bounds written out.
\<close>

lemma done_result_nonzero_max_steps:
  "EpochLoop_max_steps l \<noteq> Some 0 \<Longrightarrow>
     fst (EpochLoop_done l) =
       ((case EpochLoop_max_steps l of None \<Rightarrow> False | Some m \<Rightarrow> m \<le> EpochLoop_global_step l)
        \<or> (should_stop (trainer l) \<and> met_min_epochs l \<and> met_min_steps l)
        \<or> (case max_epochs l of None \<Rightarrow> False | Some m \<Rightarrow> current_epoch l \<ge> m))"
  by (auto simp add: done_result stop_steps_def stop_epochs_def split: option.splits)

lemma max_steps_zero_never_stops:
  "EpochLoop_max_steps l = Some 0 \<Longrightarrow> \<not> stop_steps l"
  by (simp add: stop_steps_def)

text \<open>
  Claim C1. The claim says that \<open>done\<close> is true exactly when the maximum of steps is
  set and at most the global step, or the stop signal was honoured, or the maximum of
  epochs is set and reached; in particular with a maximum of steps of 0. The source
  tests \<^verbatim>\<open>self.max_steps and ...\<close>, and 0 is falsy: for the loop built by
  \<^verbatim>\<open>EpochLoop(None, None, None, 0)\<close>, at global step 0 with no stop signal, the maximum
  of steps is set and at most the global step, and \<open>done\<close> is false. The constructor
  tests the same argument with \<^verbatim>\<open>is None\<close> and so gives this loop no maximum of
  epochs either, and the test of the maximum of epochs in \<open>done\<close> uses
  \<^verbatim>\<open>is not None\<close>. Away from the value 0 the claim holds
  (\<open>done_result_nonzero_max_steps\<close>).
\<close>

theorem done_false_at_max_steps_zero:
  "EpochLoop_max_steps max_steps_zero_loop = Some 0
   \<and> EpochLoop_global_step max_steps_zero_loop = 0
   \<and> current_epoch max_steps_zero_loop = 0
   \<and> max_epochs max_steps_zero_loop = None
   \<and> \<not> should_stop (trainer max_steps_zero_loop)
   \<and> fst (EpochLoop_done max_steps_zero_loop) = False"
  by (simp add: state_defs helper_defs done_defs)

text \<open>
  Claim C2, amended. With the stop signal set at a \<open>done\<close> check: when both floors
  are met (each unset, or the current epoch at least the minimum of epochs minus one,
  the global step at least the minimum of steps) \<open>done\<close> is true. Otherwise, with the
  current epoch and the global step not negative, \<open>done\<close> clears the stop signal, and,
  provided the maximum of steps is not the number 0, it is true exactly when a maximum
  is reached (the maximum of steps set and at most the global step, or the maximum of
  epochs set and at most the current epoch) and false otherwise. The claim as written
  says that \<open>done\<close> is false whenever a floor is not met.
\<close>

theorem done_with_stop_signal:
  assumes "should_stop (trainer l)"
  shows "((case min_epochs l of None \<Rightarrow> True | Some m \<Rightarrow> current_epoch l \<ge> m - 1)
          \<and> (case EpochLoop_min_steps l of None \<Rightarrow> True | Some m \<Rightarrow> EpochLoop_global_step l \<ge> m)
         \<longrightarrow> fst (EpochLoop_done l))
     \<and> (\<not> ((case min_epochs l of None \<Rightarrow> True | Some m \<Rightarrow> current_epoch l \<ge> m - 1)
             \<and> (case EpochLoop_min_steps l of None \<Rightarrow> True | Some m \<Rightarrow> EpochLoop_global_step l \<ge> m))
          \<and> 0 \<le> current_epoch l \<and> 0 \<le> EpochLoop_global_step l
         \<longrightarrow> \<not> should_stop (trainer (snd (EpochLoop_done l)))
             \<and> (EpochLoop_max_steps l \<noteq> Some 0 \<longrightarrow>
                  fst (EpochLoop_done l) =
                    ((case EpochLoop_max_steps l of None \<Rightarrow> False
                      | Some m \<Rightarrow> m \<le> EpochLoop_global_step l)
                     \<or> (case max_epochs l of None \<Rightarrow> False | Some m \<Rightarrow> current_epoch l \<ge> m))))"
proof -
  let ?floors = "(case min_epochs l of None \<Rightarrow> True | Some m \<Rightarrow> current_epoch l \<ge> m - 1)
          \<and> (case EpochLoop_min_steps l of None \<Rightarrow> True | Some m \<Rightarrow> EpochLoop_global_step l \<ge> m)"
  have met: "met_min_epochs l \<and> met_min_steps l" if "?floors"
    using that by (auto simp add: met_min_epochs_def met_min_steps_def split: option.splits)
  have honoured: "fst (EpochLoop_done l)" if "?floors"
    using assms met [OF that] by (simp add: done_result)
  have unmet: "\<not> (met_min_epochs l \<and> met_min_steps l)"
    if "\<not> ?floors" "0 \<le> current_epoch l" "0 \<le> EpochLoop_global_step l"
    using that by (auto simp add: met_min_epochs_def met_min_steps_def split: option.splits)
  have cleared: "\<not> should_stop (trainer (snd (EpochLoop_done l)))"
    if "\<not> ?floors" "0 \<le> current_epoch l" "0 \<le> EpochLoop_global_step l"
    using assms unmet [OF that] by (simp add: done_state set_should_stop_def emit_def)
  have result: "fst (EpochLoop_done l) =
        ((case EpochLoop_max_steps l of None \<Rightarrow> False | Some m \<Rightarrow> m \<le> EpochLoop_global_step l)
         \<or> (case max_epochs l of None \<Rightarrow> False | Some m \<Rightarrow> current_epoch l \<ge> m))"
    if "\<not> ?floors" "0 \<le> current_epoch l" "0 \<le> EpochLoop_global_step l"
      "EpochLoop_max_steps l \<noteq> Some 0"
  proof -
    have st: "stop_steps l =
        (case EpochLoop_max_steps l of None \<Rightarrow> False | Some m \<Rightarrow> m \<le> EpochLoop_global_step l)"
      using that(4) by (auto simp add: stop_steps_def split: option.splits)
    show ?thesis
      using unmet [OF that(1-3)] by (auto simp add: done_result st stop_epochs_def)
  qed
  show ?thesis
    using honoured cleared result by blast
qed

theorem done_with_stop_signal_witness:
  "should_stop (trainer early_stop_loop)
   \<and> min_epochs early_stop_loop = Some 2
   \<and> current_epoch early_stop_loop = 0
   \<and> EpochLoop_global_step early_stop_loop = 0
   \<and> EpochLoop_max_steps early_stop_loop \<noteq> Some 0
   \<and> \<not> should_stop (trainer (snd (EpochLoop_done early_stop_loop)))
   \<and> fst (EpochLoop_done early_stop_loop) = False
   \<and> should_stop (trainer early_stop_loop_epoch1)
   \<and> current_epoch early_stop_loop_epoch1 = 1
   \<and> fst (EpochLoop_done early_stop_loop_epoch1) = True
   \<and> should_stop (trainer deferred_stop_loop)
   \<and> \<not> should_stop (trainer (snd (EpochLoop_done deferred_stop_loop)))
   \<and> fst (EpochLoop_done deferred_stop_loop) = True"
proof -
  have h: "should_stop (trainer early_stop_loop)"
    by (simp add: state_defs helper_defs)
  have h1: "should_stop (trainer early_stop_loop_epoch1)"
    by (simp add: state_defs helper_defs)
  have h2: "should_stop (trainer deferred_stop_loop)"
    by (simp add: state_defs helper_defs)
  have f: "min_epochs early_stop_loop = Some 2" "current_epoch early_stop_loop = 0"
    "max_epochs early_stop_loop = Some 10" "EpochLoop_min_steps early_stop_loop = None"
    "EpochLoop_max_steps early_stop_loop = None" "EpochLoop_global_step early_stop_loop = 0"
    by (simp_all add: state_defs helper_defs)
  have f1: "min_epochs early_stop_loop_epoch1 = Some 2" "current_epoch early_stop_loop_epoch1 = 1"
    "EpochLoop_min_steps early_stop_loop_epoch1 = None"
    by (simp_all add: state_defs helper_defs)
  have f2: "min_epochs deferred_stop_loop = Some 5" "current_epoch deferred_stop_loop = 1"
    "max_epochs deferred_stop_loop = None" "EpochLoop_min_steps deferred_stop_loop = None"
    "EpochLoop_max_steps deferred_stop_loop = Some 10"
    "EpochLoop_global_step deferred_stop_loop = 10"
    by (simp_all add: state_defs helper_defs)
  have a: "\<not> should_stop (trainer (snd (EpochLoop_done early_stop_loop)))
      \<and> fst (EpochLoop_done early_stop_loop) = False"
    using done_with_stop_signal [OF h] by (simp add: f)
  have b: "fst (EpochLoop_done early_stop_loop_epoch1) = True"
    using done_with_stop_signal [OF h1] by (simp add: f1)
  have c: "\<not> should_stop (trainer (snd (EpochLoop_done deferred_stop_loop)))
      \<and> fst (EpochLoop_done deferred_stop_loop) = True"
    using done_with_stop_signal [OF h2] by (simp add: f2)
  show ?thesis
    using h h1 h2 f f1 a b c by simp
qed

text \<open>
  The claim as written fails: a loop with a minimum of 5 epochs and a maximum of 10
  steps, after one epoch of ten steps with the stop signal set. The floor is not met
  and the signal is cleared, but the maximum of steps is reached and \<open>done\<close> is true.
\<close>

theorem done_deferred_stop_counterexample:
  "should_stop (trainer deferred_stop_loop)
   \<and> min_epochs deferred_stop_loop = Some 5
   \<and> current_epoch deferred_stop_loop = 1
   \<and> \<not> current_epoch deferred_stop_loop \<ge> 5 - 1
   \<and> \<not> should_stop (trainer (snd (EpochLoop_done deferred_stop_loop)))
   \<and> fst (EpochLoop_done deferred_stop_loop) = True"
  by (simp add: state_defs helper_defs done_defs)

text \<open>
  Claim C9. A minimum of epochs (of steps) of 0 counts as met, as an unset one does:
  \<open>done\<close> gives the same result and leaves the stop signal the same, whatever the rest
  of the state. So when the signal is set and each minimum is unset or 0, \<open>done\<close> is
  true at once and changes nothing, also at epoch 0 and step 0.
\<close>

theorem zero_floor_counts_as_met:
  "fst (EpochLoop_done (l\<lparr>min_epochs := Some 0\<rparr>)) = fst (EpochLoop_done (l\<lparr>min_epochs := None\<rparr>))
   \<and> should_stop (trainer (snd (EpochLoop_done (l\<lparr>min_epochs := Some 0\<rparr>))))
       = should_stop (trainer (snd (EpochLoop_done (l\<lparr>min_epochs := None\<rparr>))))
   \<and> fst (EpochLoop_done (l\<lparr>training_loop := (training_loop l)\<lparr>min_steps := Some 0\<rparr>\<rparr>))
       = fst (EpochLoop_done (l\<lparr>training_loop := (training_loop l)\<lparr>min_steps := None\<rparr>\<rparr>))
   \<and> should_stop (trainer (snd (EpochLoop_done (l\<lparr>training_loop := (training_loop l)\<lparr>min_steps := Some 0\<rparr>\<rparr>))))
       = should_stop (trainer (snd (EpochLoop_done (l\<lparr>training_loop := (training_loop l)\<lparr>min_steps := None\<rparr>\<rparr>))))
   \<and> (should_stop (trainer l)
        \<and> (min_epochs l = None \<or> min_epochs l = Some 0)
        \<and> (EpochLoop_min_steps l = None \<or> EpochLoop_min_steps l = Some 0)
       \<longrightarrow> fst (EpochLoop_done l) \<and> snd (EpochLoop_done l) = l)"
proof -
  have e: "met_min_epochs (l\<lparr>min_epochs := Some 0\<rparr>) = met_min_epochs (l\<lparr>min_epochs := None\<rparr>)"
    by (simp add: met_min_epochs_def)
  have s: "met_min_steps (l\<lparr>training_loop := (training_loop l)\<lparr>min_steps := Some 0\<rparr>\<rparr>)
         = met_min_steps (l\<lparr>training_loop := (training_loop l)\<lparr>min_steps := None\<rparr>\<rparr>)"
    by (simp add: met_min_steps_def EpochLoop_min_steps_def)
  have a: "fst (EpochLoop_done (l\<lparr>min_epochs := Some 0\<rparr>)) = fst (EpochLoop_done (l\<lparr>min_epochs := None\<rparr>))"
    unfolding done_result e
    by (simp add: stop_steps_def stop_epochs_def met_min_steps_def helper_defs cong: option.case_cong)
  have b: "should_stop (trainer (snd (EpochLoop_done (l\<lparr>min_epochs := Some 0\<rparr>))))
       = should_stop (trainer (snd (EpochLoop_done (l\<lparr>min_epochs := None\<rparr>))))"
    unfolding done_state e
    by (simp add: met_min_steps_def helper_defs cong: option.case_cong)
  have c: "fst (EpochLoop_done (l\<lparr>training_loop := (training_loop l)\<lparr>min_steps := Some 0\<rparr>\<rparr>))
       = fst (EpochLoop_done (l\<lparr>training_loop := (training_loop l)\<lparr>min_steps := None\<rparr>\<rparr>))"
    unfolding done_result s
    by (simp add: stop_steps_def stop_epochs_def met_min_epochs_def helper_defs cong: option.case_cong)
  have d: "should_stop (trainer (snd (EpochLoop_done (l\<lparr>training_loop := (training_loop l)\<lparr>min_steps := Some 0\<rparr>\<rparr>))))
       = should_stop (trainer (snd (EpochLoop_done (l\<lparr>training_loop := (training_loop l)\<lparr>min_steps := None\<rparr>\<rparr>))))"
    unfolding done_state s
    by (simp add: met_min_epochs_def helper_defs cong: option.case_cong)
  have f: "fst (EpochLoop_done l) \<and> snd (EpochLoop_done l) = l"
    if "should_stop (trainer l)" "min_epochs l = None \<or> min_epochs l = Some 0"
       "EpochLoop_min_steps l = None \<or> EpochLoop_min_steps l = Some 0"
  proof -
    have "met_min_epochs l" "met_min_steps l"
      using that by (auto simp add: met_min_epochs_def met_min_steps_def)
    with that(1) show ?thesis
      by (simp add: done_result done_state)
  qed
  show ?thesis
    using a b c d f by blast
qed

theorem zero_floor_counts_as_met_witness:
  "should_stop (trainer zero_floor_loop)
   \<and> min_epochs zero_floor_loop = Some 0
   \<and> EpochLoop_min_steps zero_floor_loop = Some 0
   \<and> current_epoch zero_floor_loop = 0
   \<and> EpochLoop_global_step zero_floor_loop = 0
   \<and> fst (EpochLoop_done zero_floor_loop)
   \<and> snd (EpochLoop_done zero_floor_loop) = zero_floor_loop"
proof -
  have h: "should_stop (trainer zero_floor_loop)" "min_epochs zero_floor_loop = Some 0"
    "EpochLoop_min_steps zero_floor_loop = Some 0" "current_epoch zero_floor_loop = 0"
    "EpochLoop_global_step zero_floor_loop = 0"
    by (simp_all add: state_defs helper_defs)
  show ?thesis
    using h zero_floor_counts_as_met [of zero_floor_loop] by simp
qed

text \<open>
  Claim C10. A \<open>done\<close> check leaves the current epoch, the iteration counter, the
  global step, the four bounds and the teardown guard as they are. Either the whole
  state is unchanged, or the stop signal was set and is cleared, with the line the
  source logs at that point.
\<close>

theorem done_changes_only_stop_signal:
  "current_epoch (snd (EpochLoop_done l)) = current_epoch l
   \<and> iteration_count (snd (EpochLoop_done l)) = iteration_count l
   \<and> EpochLoop_global_step (snd (EpochLoop_done l)) = EpochLoop_global_step l
   \<and> min_epochs (snd (EpochLoop_done l)) = min_epochs l
   \<and> max_epochs (snd (EpochLoop_done l)) = max_epochs l
   \<and> EpochLoop_min_steps (snd (EpochLoop_done l)) = EpochLoop_min_steps l
   \<and> EpochLoop_max_steps (snd (EpochLoop_done l)) = EpochLoop_max_steps l
   \<and> teardown_already_run (snd (EpochLoop_done l)) = teardown_already_run l
   \<and> (snd (EpochLoop_done l) = l
       \<or> should_stop (trainer l)
         \<and> snd (EpochLoop_done l) =
             l\<lparr>trainer := (trainer l)\<lparr>should_stop := False\<rparr>,
               effects := effects l @ [LogInfoMinNotMet (min_epochs l) (EpochLoop_min_steps l)]\<rparr>)"
  by (simp add: done_state helper_defs)

theorem done_changes_only_stop_signal_witness:
  "snd (EpochLoop_done fresh_loop) = fresh_loop
   \<and> should_stop (trainer early_stop_loop)
   \<and> snd (EpochLoop_done early_stop_loop) =
       early_stop_loop\<lparr>trainer := (trainer early_stop_loop)\<lparr>should_stop := False\<rparr>,
         effects := [LogInfoMinNotMet (Some 2) None]\<rparr>
   \<and> current_epoch (snd (EpochLoop_done early_stop_loop)) = 0
   \<and> teardown_already_run (snd (EpochLoop_done early_stop_loop)) = False"
proof -
  have a: "snd (EpochLoop_done fresh_loop) = fresh_loop"
    by (simp add: done_state state_defs)
  have b: "should_stop (trainer early_stop_loop)"
    by (simp add: state_defs helper_defs)
  have c: "snd (EpochLoop_done early_stop_loop) =
       early_stop_loop\<lparr>trainer := (trainer early_stop_loop)\<lparr>should_stop := False\<rparr>,
         effects := [LogInfoMinNotMet (Some 2) None]\<rparr>"
    by (simp add: done_state met_min_epochs_def state_defs helper_defs)
  have d: "current_epoch early_stop_loop = 0" "teardown_already_run early_stop_loop = False"
    by (simp_all add: state_defs helper_defs)
  show ?thesis
    using a b c d done_changes_only_stop_signal [of early_stop_loop] by simp
qed

section \<open>The run: claim C3\<close>

text \<open>
  Claim C3, amended. Along every run of a loop as the constructor builds it, with any
  environments: \<open>on_advance_start\<close> sets the current epoch to the iteration counter plus
  one; at every point of the run the current epoch is the number of epochs started so
  far (the number of \<open>on_advance_start\<close> calls up to that point), so each epoch adds
  exactly one to it and nothing else changes it; it never decreases; and when the
  maximum of epochs is set and not negative, the current epoch is at most the maximum
  at every point of the run, the point after \<open>on_run_end\<close> included. The claim as
  written has no condition on the sign of the maximum.
\<close>

theorem current_epoch_along_run:
  "current_epoch (on_advance_start l) = iteration_count l + 1
   \<and> (\<forall>pre suf.
         Loop_run envs (connect tr (EpochLoop_init mn mx ms mxs)) = pre @ suf \<and> pre \<noteq> [] \<longrightarrow>
         current_epoch (snd (last pre)) =
           int (length (filter (\<lambda>x. fst x = AdvanceStarted) pre)))
   \<and> sorted (map (\<lambda>x. current_epoch (snd x))
               (Loop_run envs (connect tr (EpochLoop_init mn mx ms mxs))))
   \<and> (\<forall>m. max_epochs (EpochLoop_init mn mx ms mxs) = Some m \<and> 0 \<le> m \<longrightarrow>
          list_all (\<lambda>x. current_epoch (snd x) \<le> m)
            (Loop_run envs (connect tr (EpochLoop_init mn mx ms mxs))))"
proof -
  let ?l = "connect tr (EpochLoop_init mn mx ms mxs)"
  have inv: "current_epoch ?l = iteration_count ?l"
    by (simp add: connect_init_fields)
  have steps: "successively epoch_step (Loop_run envs ?l)"
    by (rule Loop_run_steps [OF inv])
  have first: "hd (Loop_run envs ?l) = (Constructed, ?l)"
    by (simp add: Loop_run_def Let_def)
  have count: "current_epoch (snd (last pre)) =
      int (length (filter (\<lambda>x. fst x = AdvanceStarted) pre))"
    if "Loop_run envs ?l = pre @ suf" "pre \<noteq> []" for pre suf
    using steps_count [OF steps that] by (simp add: first connect_init_fields)
  have bound: "list_all (\<lambda>x. current_epoch (snd x) \<le> m) (Loop_run envs ?l)"
    if "max_epochs (EpochLoop_init mn mx ms mxs) = Some m" "0 \<le> m" for m
  proof -
    have "list_all (\<lambda>x. current_epoch (snd x) \<le> m) (Loop_iterate envs (on_run_start ?l))"
      using that by (intro Loop_iterate_bound) (simp_all add: frame connect_init_fields)
    then show ?thesis
      using that by (simp add: Loop_run_def Let_def frame connect_init_fields)
  qed
  have start: "current_epoch (on_advance_start l) = iteration_count l + 1"
    by (simp add: frame)
  show ?thesis
    using start count steps_sorted [OF steps] bound by blast
qed

theorem current_epoch_along_run_witness:
  "max_epochs (EpochLoop_init None (Some 2) None None) = Some 2
   \<and> (0::int) \<le> 2
   \<and> map (\<lambda>x. (fst x, current_epoch (snd x)))
        (Loop_run [quiet_epoch, quiet_epoch]
           (connect plain_trainer (EpochLoop_init None (Some 2) None None)))
      = [(Constructed, 0), (RunStarted, 0),
         (DoneChecked, 0), (AdvanceStarted, 1), (Advanced, 1), (AdvanceEnded, 1),
         (IterationCounted, 1),
         (DoneChecked, 1), (AdvanceStarted, 2), (Advanced, 2), (AdvanceEnded, 2),
         (IterationCounted, 2),
         (DoneChecked, 2), (RunEnded, 2)]
   \<and> current_epoch (snd (last (Loop_run [quiet_epoch, quiet_epoch]
           (connect plain_trainer (EpochLoop_init None (Some 2) None None)))))
      = int (length (filter (\<lambda>x. fst x = AdvanceStarted)
           (Loop_run [quiet_epoch, quiet_epoch]
              (connect plain_trainer (EpochLoop_init None (Some 2) None None)))))
   \<and> list_all (\<lambda>x. current_epoch (snd x) \<le> 2)
        (Loop_run [quiet_epoch, quiet_epoch]
           (connect plain_trainer (EpochLoop_init None (Some 2) None None)))"
proof -
  let ?l = "connect plain_trainer (EpochLoop_init None (Some 2) None None)"
  let ?run = "Loop_run [quiet_epoch, quiet_epoch] ?l"
  have mx: "max_epochs (EpochLoop_init None (Some 2) None None) = Some 2"
    by (simp add: EpochLoop_init_def)
  have l: "EpochLoop_max_steps ?l = None" "\<not> should_stop (trainer ?l)"
    by (simp_all add: state_defs helper_defs)
  have q: "check_val quiet_epoch" "\<not> eval_should_stop quiet_epoch"
    by (simp_all add: quiet_epoch_def)
  have d: "fst (EpochLoop_done t) = (2 \<le> current_epoch t)"
    if "max_epochs t = Some 2" "EpochLoop_max_steps t = None" "\<not> should_stop (trainer t)" for t
    using that by (simp add: done_result stop_steps_def stop_epochs_def)
  have s: "should_stop (trainer (snd (EpochLoop_done t))) = False"
    if "\<not> should_stop (trainer t)" for t
    using that by (simp add: done_state)
  have trace: "map (\<lambda>x. (fst x, current_epoch (snd x))) ?run
      = [(Constructed, 0), (RunStarted, 0),
         (DoneChecked, 0), (AdvanceStarted, 1), (Advanced, 1), (AdvanceEnded, 1),
         (IterationCounted, 1),
         (DoneChecked, 1), (AdvanceStarted, 2), (Advanced, 2), (AdvanceEnded, 2),
         (IterationCounted, 2),
         (DoneChecked, 2), (RunEnded, 2)]"
    by (simp add: Loop_run_def Let_def split_beta d s l q frame max_steps_frame
        should_stop_frame connect_init_fields mx)
  have ne: "?run \<noteq> []"
    by (simp add: Loop_run_def Let_def)
  note inst = current_epoch_along_run [of fresh_loop "[quiet_epoch, quiet_epoch]"
      plain_trainer None "Some 2" None None]
  from inst have count: "\<forall>pre suf. ?run = pre @ suf \<and> pre \<noteq> [] \<longrightarrow>
      current_epoch (snd (last pre)) = int (length (filter (\<lambda>x. fst x = AdvanceStarted) pre))"
    by (elim conjE)
  have whole: "current_epoch (snd (last ?run)) =
      int (length (filter (\<lambda>x. fst x = AdvanceStarted) ?run))"
    using count [rule_format, of ?run "[]"] ne by simp
  from inst mx have bound: "list_all (\<lambda>x. current_epoch (snd x) \<le> 2) ?run"
    by simp
  have two: "(0::int) \<le> 2"
    by simp
  show ?thesis
    by (rule conjI [OF mx conjI [OF two conjI [OF trace conjI [OF whole bound]]]])
qed

text \<open>
  The claim as written fails for a negative maximum: \<^verbatim>\<open>EpochLoop(None, -1, None, None)\<close>
  starts at epoch 0, above its maximum, and the run ends there.
\<close>

theorem current_epoch_above_negative_max_counterexample:
  "max_epochs negative_max_epochs_loop = Some (- 1)
   \<and> current_epoch negative_max_epochs_loop = 0
   \<and> map fst (Loop_run [] negative_max_epochs_loop)
       = [Constructed, RunStarted, DoneChecked, RunEnded]
   \<and> current_epoch (snd (last (Loop_run [] negative_max_epochs_loop))) = 0
   \<and> \<not> current_epoch (snd (last (Loop_run [] negative_max_epochs_loop))) \<le> - 1"
  by (simp add: step_defs state_defs helper_defs done_defs Let_def)

section \<open>The end of the run: claims C4, C5\<close>

lemma on_run_end_noop:
  "teardown_already_run l \<Longrightarrow> on_run_end l = l"
  by (simp add: on_run_end_def)

text \<open>
  Claim C4. Starting with the guard false, \<open>on_run_end\<close> sets it; a second call changes
  nothing; any number of calls, one or more, gives the state of one call. The trace of
  that state is the trace of one checkpoint check (made with the global step lowered
  by one), then one \<^verbatim>\<open>on_train_end\<close> hook, one finalize of the logger when there is a
  logger, one describe of the profiler and one teardown of the accelerator; the
  running stage is reset.
\<close>

theorem on_run_end_once:
  assumes "\<not> teardown_already_run l"
  shows "teardown_already_run (on_run_end l)
    \<and> on_run_end (on_run_end l) = on_run_end l
    \<and> (on_run_end ^^ Suc n) l = on_run_end l
    \<and> effects ((on_run_end ^^ Suc n) l) =
        effects (check_checkpoint_callback True True
                   (set_global_step (EpochLoop_global_step l - 1) l))
        @ [CallHook ''on_train_end'']
        @ (case logger (trainer l) of None \<Rightarrow> [] | Some name \<Rightarrow> [LoggerFinalize name ''success''])
        @ [ProfilerDescribe, AcceleratorOnTrainEnd]
    \<and> running_stage (trainer ((on_run_end ^^ Suc n) l)) = None"
proof -
  have flag: "teardown_already_run (on_run_end l)"
    by (simp add: on_run_end_eq)
  have again: "on_run_end (on_run_end l) = on_run_end l"
    using flag by (simp add: on_run_end_def)
  have many: "(on_run_end ^^ Suc n) l = on_run_end l"
  proof (induction n)
    case 0
    show ?case by simp
  next
    case (Suc n)
    have "(on_run_end ^^ Suc (Suc n)) l = on_run_end ((on_run_end ^^ Suc n) l)"
      by simp
    also have "\<dots> = on_run_end (on_run_end l)"
      by (simp only: Suc.IH)
    finally show ?case
      by (simp only: again)
  qed
  have once: "effects (on_run_end l) =
        effects (check_checkpoint_callback True True
                   (set_global_step (EpochLoop_global_step l - 1) l))
        @ [CallHook ''on_train_end'']
        @ (case logger (trainer l) of None \<Rightarrow> [] | Some name \<Rightarrow> [LoggerFinalize name ''success''])
        @ [ProfilerDescribe, AcceleratorOnTrainEnd]"
    using assms by (simp add: on_run_end_eq)
  have stage: "running_stage (trainer (on_run_end l)) = None"
    using assms by (simp add: on_run_end_eq)
  show ?thesis
    using flag again once stage by (simp only: many simp_thms)
qed

theorem on_run_end_once_witness:
  "\<not> teardown_already_run fresh_loop
   \<and> on_run_end (on_run_end fresh_loop) = on_run_end fresh_loop
   \<and> effects (on_run_end (on_run_end (on_run_end fresh_loop))) =
       [RankZeroInfo ''Saving latest checkpoint...'',
        OnValidationEnd \<lparr>save_last = True, verbose = True\<rparr> ''model'' (- 1),
        OnValidationEnd \<lparr>save_last = True, verbose = True\<rparr> ''model'' (- 1),
        CallHook ''on_train_end'', LoggerFinalize ''tensorboard'' ''success'',
        ProfilerDescribe, AcceleratorOnTrainEnd]"
proof -
  have h: "\<not> teardown_already_run fresh_loop"
    by (simp add: state_defs)
  have ev: "effects (check_checkpoint_callback True True
                   (set_global_step (EpochLoop_global_step fresh_loop - 1) fresh_loop))
        @ [CallHook ''on_train_end'']
        @ (case logger (trainer fresh_loop) of None \<Rightarrow> []
           | Some name \<Rightarrow> [LoggerFinalize name ''success''])
        @ [ProfilerDescribe, AcceleratorOnTrainEnd] =
       [RankZeroInfo ''Saving latest checkpoint...'',
        OnValidationEnd \<lparr>save_last = True, verbose = True\<rparr> ''model'' (- 1),
        OnValidationEnd \<lparr>save_last = True, verbose = True\<rparr> ''model'' (- 1),
        CallHook ''on_train_end'', LoggerFinalize ''tensorboard'' ''success'',
        ProfilerDescribe, AcceleratorOnTrainEnd]"
    by (simp add: check_checkpoint_callback_eq state_defs helper_defs)
  have three: "(on_run_end ^^ Suc 2) fresh_loop = on_run_end (on_run_end (on_run_end fresh_loop))"
    by (simp add: numeral_2_eq_2)
  note once = on_run_end_once [OF h, of 2]
  from once have again: "on_run_end (on_run_end fresh_loop) = on_run_end fresh_loop"
    by (elim conjE)
  from once have "effects ((on_run_end ^^ Suc 2) fresh_loop) =
        effects (check_checkpoint_callback True True
                   (set_global_step (EpochLoop_global_step fresh_loop - 1) fresh_loop))
        @ [CallHook ''on_train_end'']
        @ (case logger (trainer fresh_loop) of None \<Rightarrow> []
           | Some name \<Rightarrow> [LoggerFinalize name ''success''])
        @ [ProfilerDescribe, AcceleratorOnTrainEnd]"
    by (elim conjE)
  then have log: "effects (on_run_end (on_run_end (on_run_end fresh_loop))) =
       [RankZeroInfo ''Saving latest checkpoint...'',
        OnValidationEnd \<lparr>save_last = True, verbose = True\<rparr> ''model'' (- 1),
        OnValidationEnd \<lparr>save_last = True, verbose = True\<rparr> ''model'' (- 1),
        CallHook ''on_train_end'', LoggerFinalize ''tensorboard'' ''success'',
        ProfilerDescribe, AcceleratorOnTrainEnd]"
    unfolding three by (rule trans [OF _ ev])
  show ?thesis
    by (rule conjI [OF h conjI [OF again log]])
qed

text \<open>
  Claim C5. After \<open>on_run_end\<close> the global step is what it was before the call, for
  every starting value.
\<close>

theorem on_run_end_global_step:
  "EpochLoop_global_step (on_run_end l) = EpochLoop_global_step l"
  by (simp add: on_run_end_eq EpochLoop_global_step_def)

theorem on_run_end_global_step_witness:
  "EpochLoop_global_step fresh_loop = 0
   \<and> EpochLoop_global_step (on_run_end fresh_loop) = 0
   \<and> EpochLoop_global_step (on_run_end (set_global_step 100 fresh_loop)) = 100"
proof -
  have a: "EpochLoop_global_step fresh_loop = 0"
    by (simp add: state_defs helper_defs)
  have b: "EpochLoop_global_step (set_global_step 100 fresh_loop) = 100"
    by (simp add: helper_defs)
  show ?thesis
    using a b on_run_end_global_step [of fresh_loop]
      on_run_end_global_step [of "set_global_step 100 fresh_loop"]
    by simp
qed

section \<open>Construction: claim C6\<close>

text \<open>
  Claim C6. The constructor sets the maximum of epochs to 1000 when neither maximum is
  given and keeps the given value otherwise; it sets the minimum of epochs to 1 when
  neither minimum is given and keeps the given value otherwise; the current epoch
  starts at 0 and the teardown guard is false.
\<close>

theorem EpochLoop_init_defaults:
  "max_epochs (EpochLoop_init mn mx ms mxs) =
     (if mx = None \<and> mxs = None then Some 1000 else mx)
   \<and> min_epochs (EpochLoop_init mn mx ms mxs) =
     (if mn = None \<and> ms = None then Some 1 else mn)
   \<and> current_epoch (EpochLoop_init mn mx ms mxs) = 0
   \<and> \<not> teardown_already_run (EpochLoop_init mn mx ms mxs)"
  by (simp add: EpochLoop_init_def)

theorem EpochLoop_init_defaults_witness:
  "max_epochs (EpochLoop_init None None None None) = Some 1000
   \<and> min_epochs (EpochLoop_init None None None None) = Some 1
   \<and> max_epochs (EpochLoop_init None None None (Some 100)) = None
   \<and> min_epochs (EpochLoop_init None None (Some 5) None) = None
   \<and> max_epochs (EpochLoop_init (Some 2) (Some 10) None None) = Some 10
   \<and> min_epochs (EpochLoop_init (Some 2) (Some 10) None None) = Some 2
   \<and> current_epoch (EpochLoop_init None None None None) = 0
   \<and> \<not> teardown_already_run (EpochLoop_init None None None None)"
  using EpochLoop_init_defaults [of None None None None]
    EpochLoop_init_defaults [of None None None "Some 100"]
    EpochLoop_init_defaults [of None None "Some 5" None]
    EpochLoop_init_defaults [of "Some 2" "Some 10" None None]
  by simp

section \<open>The checkpoint check: claim C7\<close>

text \<open>
  Claim C7. \<open>check_checkpoint_callback\<close> changes nothing when \<open>should_update\<close> is false
  or no training has occurred. Otherwise it adds to the trace, in this order: the
  message \<^verbatim>\<open>Saving latest checkpoint...\<close> once, when \<open>is_last\<close> holds and some callback
  has both \<open>save_last\<close> and \<open>verbose\<close>; then one \<^verbatim>\<open>on_validation_end\<close> call for each
  registered callback, with the model. Nothing else changes.
\<close>

theorem check_checkpoint_callback_effects:
  "(\<not> should_update \<or> \<not> has_trained (trainer l) \<longrightarrow>
      check_checkpoint_callback should_update is_last l = l)
   \<and> (should_update \<and> has_trained (trainer l) \<longrightarrow>
      check_checkpoint_callback should_update is_last l =
        l\<lparr>effects := effects l
            @ (if is_last \<and> (\<exists>cb \<in> set (checkpoint_callbacks (trainer l)). save_last cb \<and> verbose cb)
               then [RankZeroInfo ''Saving latest checkpoint...''] else [])
            @ map (\<lambda>cb. OnValidationEnd cb (lightning_module (trainer l)) (EpochLoop_global_step l))
                (checkpoint_callbacks (trainer l))\<rparr>)"
  by (simp add: check_checkpoint_callback_eq list_ex_iff)

theorem check_checkpoint_callback_effects_witness:
  "has_trained (trainer fresh_loop)
   \<and> checkpoint_callbacks (trainer fresh_loop) =
       [\<lparr>save_last = True, verbose = True\<rparr>, \<lparr>save_last = True, verbose = True\<rparr>]
   \<and> effects (check_checkpoint_callback True True fresh_loop) =
       [RankZeroInfo ''Saving latest checkpoint...'',
        OnValidationEnd \<lparr>save_last = True, verbose = True\<rparr> ''model'' 0,
        OnValidationEnd \<lparr>save_last = True, verbose = True\<rparr> ''model'' 0]
   \<and> effects (check_checkpoint_callback True False fresh_loop) =
       [OnValidationEnd \<lparr>save_last = True, verbose = True\<rparr> ''model'' 0,
        OnValidationEnd \<lparr>save_last = True, verbose = True\<rparr> ''model'' 0]
   \<and> check_checkpoint_callback False True fresh_loop = fresh_loop"
proof -
  have h: "has_trained (trainer fresh_loop)"
    by (simp add: state_defs)
  have cbs: "checkpoint_callbacks (trainer fresh_loop) =
       [\<lparr>save_last = True, verbose = True\<rparr>, \<lparr>save_last = True, verbose = True\<rparr>]"
    by (simp add: state_defs)
  have f: "effects fresh_loop = []" "lightning_module (trainer fresh_loop) = ''model''"
    "EpochLoop_global_step fresh_loop = 0"
    by (simp_all add: state_defs helper_defs)
  show ?thesis
    using h cbs f
      check_checkpoint_callback_effects [of True fresh_loop True]
      check_checkpoint_callback_effects [of True fresh_loop False]
      check_checkpoint_callback_effects [of False fresh_loop True]
    by simp
qed

section \<open>The start of an epoch: claim C8\<close>

text \<open>
  \<open>on_advance_start\<close> asks for the dataloader to be reset exactly when the flag is set
  and the iteration counter is not \<open>-1\<close>.
\<close>

lemma on_advance_start_reload:
  "ResetTrainDataloader (lightning_module (trainer l)) \<in> set (effects (on_advance_start l)) - set (effects l)
   \<longleftrightarrow> ResetTrainDataloader (lightning_module (trainer l)) \<notin> set (effects l)
       \<and> iteration_count l \<noteq> - 1 \<and> reload_dataloaders_every_epoch (trainer l)"
  by (auto simp add: on_advance_start_def Let_def helper_defs)

text \<open>
  Claim C8. The claim says that the data source is rebuilt exactly when the flag is
  set and the epoch is not the first of the run. The source tests \<^verbatim>\<open>epoch != 0\<close>
  with \<^verbatim>\<open>epoch = self.iteration_count + 1\<close>, which is 1 in the first epoch: a fresh
  loop whose trainer has the flag set resets the dataloader in its first epoch.
\<close>

theorem first_epoch_reloads_dataloader:
  "iteration_count reload_loop = 0
   \<and> current_epoch reload_loop = 0
   \<and> effects reload_loop = []
   \<and> reload_dataloaders_every_epoch (trainer reload_loop)
   \<and> effects (on_advance_start reload_loop) =
       [ResetTrainDataloader ''model'', SamplerSetEpoch 1, SchedulerOnTrainEpochStart ''model'',
        ResetAccumulatedLoss 1, CallHook ''on_epoch_start'', CallHook ''on_train_epoch_start'']"
  by (simp add: on_advance_start_def Let_def state_defs helper_defs)

end
